theory Spec2Isabelle
  imports Main "HOL-Library.Word"
begin

unbundle bit_operations_syntax

section \<open>Connection status codes (tcp/status.py)\<close>

text \<open>
  \<open>ConnectionStatus\<close> is an \<open>IntEnum\<close> with six members.  The members are the
  constructors of a datatype; \<open>status_value\<close> is the integer each member carries
  (the \<open>.value\<close> of the enum member).  Python integers are unbounded, so the
  carrier is \<open>int\<close>, whose \<open>AND\<close> is the two's-complement conjunction that
  Python's \<open>&\<close> computes.
\<close>

datatype ConnectionStatus =
    Default
  | Connecting
  | Connected
  | Maintaining
  | Expired
  | Error

fun status_value :: "ConnectionStatus \<Rightarrow> int" where
  "status_value Default = 0x00"
| "status_value Connecting = 0x01"
| "status_value Connected = 0x11"
| "status_value Maintaining = 0x21"
| "status_value Expired = 0x22"
| "status_value Error = 0x03"

text \<open>The members in declaration order, as iterating over the enum class yields them.\<close>

definition members :: "ConnectionStatus list" where
  "members = [Default, Connecting, Connected, Maintaining, Expired, Error]"

text \<open>
  The three class methods take a plain \<open>int\<close> (the annotation of the source) and
  do no look-up in the enum.
\<close>

definition is_connected :: "int \<Rightarrow> bool" where
  "is_connected status = ((status AND 0x30) \<noteq> 0)"

definition is_expired :: "int \<Rightarrow> bool" where
  "is_expired status = ((status AND 0x01) = 0)"

definition is_error :: "int \<Rightarrow> bool" where
  "is_error status = (status = status_value Error)"

section \<open>Status classifier\<close>

text \<open>
  The classifier is not part of \<open>tcp/status.py\<close>; the definitions of this section
  and the next follow the specification's description of it.  Instants and
  durations are elements of an arbitrary linearly ordered abelian group, so the
  results hold for integer as well as fractional clocks.
\<close>

datatype Field = NONE | RECENT | STALE

text \<open>
  Modelled from the spec: the per-field recency computation of the classifier
  (algorithm steps 1 and 2), which is missing from the source files.  The field
  is NONE if the timestamp is unset or the elapsed time is at least the stale
  threshold, RECENT if the elapsed time is below the recent threshold, and STALE
  otherwise.
\<close>

definition field_of :: "'a::linordered_ab_group_add \<Rightarrow> 'a option \<Rightarrow> 'a \<Rightarrow> 'a \<Rightarrow> Field" where
  "field_of now stamp recent_threshold stale_threshold =
     (case stamp of
        None \<Rightarrow> NONE
      | Some t \<Rightarrow>
          if now - t \<ge> stale_threshold then NONE
          else if now - t < recent_threshold then RECENT
          else STALE)"

text \<open>
  Modelled from the spec: the fixed table of algorithm step 3, which is missing
  from the source files.  The table is data: one row per pair of send field and
  receive field, in the order of the specification's table read row by row.
\<close>

definition status_table :: "((Field \<times> Field) \<times> ConnectionStatus) list" where
  "status_table =
     [((NONE, NONE), Default),      ((NONE, STALE), Expired),       ((NONE, RECENT), Connected),
      ((STALE, NONE), Error),       ((STALE, STALE), Expired),      ((STALE, RECENT), Connected),
      ((RECENT, NONE), Connecting), ((RECENT, STALE), Maintaining), ((RECENT, RECENT), Connected)]"

text \<open>
  Modelled from the spec: the look-up of a pair of fields in the table.  A pair
  with no row has no status: the look-up fails, which is the value \<open>None\<close>.  The
  first argument is the send field, the second the receive field.
\<close>

definition lookup :: "Field \<Rightarrow> Field \<Rightarrow> ConnectionStatus option" where
  "lookup send_field recv_field = map_of status_table (send_field, recv_field)"

text \<open>
  Modelled from the spec: the function \<open>classify\<close>, which is missing from the
  source files: both fields are computed from the same \<open>now\<close> and thresholds and
  the pair is looked up in the table.  The result is \<open>None\<close> when the call fails,
  which can only come from the look-up.
\<close>

definition classify ::
  "'a::linordered_ab_group_add \<Rightarrow> 'a option \<Rightarrow> 'a option \<Rightarrow> 'a \<Rightarrow> 'a
     \<Rightarrow> ConnectionStatus option" where
  "classify now last_sent last_received recent_threshold stale_threshold =
     lookup (field_of now last_sent recent_threshold stale_threshold)
            (field_of now last_received recent_threshold stale_threshold)"

text \<open>
  Modelled from the spec: the bits that the data model's field table assigns to
  one field taken alone: the recent bit for RECENT, the stale bit for STALE and
  no bit for NONE, in the low nibble for the send field and in the high nibble
  for the receive field.  The classifier does not compute its result from them;
  they are here to compare the table with.
\<close>

fun send_bits :: "Field \<Rightarrow> int" where
  "send_bits NONE = 0x00"
| "send_bits RECENT = 0x01"
| "send_bits STALE = 0x02"

fun recv_bits :: "Field \<Rightarrow> int" where
  "recv_bits NONE = 0x00"
| "recv_bits RECENT = 0x10"
| "recv_bits STALE = 0x20"

section \<open>Timestamp tracker\<close>

text \<open>
  The tracker holds the instant of the last send and of the last receive, both
  unset at creation.  Its observable state is what the two accessors return,
  which is the content of the record.
\<close>

record 'a tracker =
  last_sent :: "'a option"
  last_received :: "'a option"

definition new_tracker :: "'a tracker" where
  "new_tracker = \<lparr>last_sent = None, last_received = None\<rparr>"

text \<open>
  Modelled from the spec: \<open>on_sent\<close> of the timestamp tracker, which is missing
  from the source files.  The instant is recorded unless it is earlier than the
  recorded one, in which case the tracker is returned unchanged; no branch
  raises.
\<close>

definition on_sent :: "'a::linorder \<Rightarrow> 'a tracker \<Rightarrow> 'a tracker" where
  "on_sent at t =
     (case last_sent t of
        None \<Rightarrow> t\<lparr>last_sent := Some at\<rparr>
      | Some cur \<Rightarrow> if at < cur then t else t\<lparr>last_sent := Some at\<rparr>)"

text \<open>
  Modelled from the spec: \<open>on_received\<close> of the timestamp tracker, which is
  missing from the source files; symmetric to \<open>on_sent\<close>.
\<close>

definition on_received :: "'a::linorder \<Rightarrow> 'a tracker \<Rightarrow> 'a tracker" where
  "on_received at t =
     (case last_received t of
        None \<Rightarrow> t\<lparr>last_received := Some at\<rparr>
      | Some cur \<Rightarrow> if at < cur then t else t\<lparr>last_received := Some at\<rparr>)"

section \<open>Auxiliary facts\<close>

lemma status_exhaust_list: "s \<in> set members"
  by (cases s) (simp_all add: members_def)

lemma on_sent_last_sent:
  "last_sent (on_sent at t) =
     (case last_sent t of None \<Rightarrow> Some at | Some cur \<Rightarrow> Some (max cur at))"
  by (auto simp add: on_sent_def max_def split: option.splits)

lemma on_received_last_received:
  "last_received (on_received at t) =
     (case last_received t of None \<Rightarrow> Some at | Some cur \<Rightarrow> Some (max cur at))"
  by (auto simp add: on_received_def max_def split: option.splits)

lemma lookup_total: "\<exists>st. lookup send_field recv_field = Some st"
  by (cases send_field; cases recv_field) (simp_all add: lookup_def status_table_def)

text \<open>
  The code of a table entry is the union of the bits of its two fields in five
  of the nine rows.  In the other four the table departs from the per-field bits:
  a RECENT receive field yields Connected = 0x11 whatever the send field, a NONE
  send field with a STALE receive field yields Expired = 0x22, and a STALE send
  field with a NONE receive field yields Error = 0x03.
\<close>

lemma table_code_versus_field_bits:
  "lookup send_field recv_field = Some st \<Longrightarrow>
   (status_value st = send_bits send_field OR recv_bits recv_field)
     = ((send_field, recv_field)
          \<in> {(NONE, NONE), (RECENT, NONE), (RECENT, RECENT), (RECENT, STALE), (STALE, STALE)})"
  by (cases send_field; cases recv_field) (auto simp add: lookup_def status_table_def)

section \<open>The status codes\<close>

text \<open>
  C5: \<open>ConnectionStatus\<close> has exactly six members, with the integer codes
  Default = 0x00, Connecting = 0x01, Connected = 0x11, Maintaining = 0x21,
  Expired = 0x22 and Error = 0x03, and the six codes are pairwise distinct.
\<close>

theorem six_distinct_codes:
  "set members = UNIV \<and> length members = 6 \<and> distinct members
   \<and> map status_value members = [0x00, 0x01, 0x11, 0x21, 0x22, 0x03]
   \<and> distinct (map status_value members)"
proof -
  have "set members = UNIV"
    using status_exhaust_list by blast
  moreover have "length members = 6 \<and> distinct members"
    by (simp add: members_def)
  moreover have "map status_value members = [0x00, 0x01, 0x11, 0x21, 0x22, 0x03]"
    by (simp add: members_def)
  moreover have "distinct (map status_value members)"
    by (simp add: members_def)
  ultimately show ?thesis by blast
qed

text \<open>
  C1, as stated: \<open>is_expired\<close> would be true of the Error code.  The Error code
  0x03 has bit 0x01 set, so \<open>is_expired\<close> is false of it.
\<close>

theorem is_expired_Error_counterexample:
  "\<not> is_expired (status_value Error)"
  by (simp add: is_expired_def)

text \<open>
  C1, amended: on the six legal codes, \<open>is_expired\<close> is true exactly for Default
  and Expired, and false exactly for Connecting, Connected, Maintaining and
  Error.
\<close>

theorem is_expired_legal_codes:
  "is_expired (status_value s) = (s \<in> {Default, Expired})
   \<and> (\<not> is_expired (status_value s)) = (s \<in> {Connecting, Connected, Maintaining, Error})"
  by (cases s) (simp_all add: is_expired_def)

text \<open>
  C3: on the six legal codes, \<open>is_connected\<close> is true exactly for Connected,
  Maintaining and Expired, and false exactly for Default, Connecting and Error;
  on every integer its value is that of the test \<open>(code & 0x30) != 0\<close>.
\<close>

theorem is_connected_legal_codes:
  "is_connected (status_value s) = (s \<in> {Connected, Maintaining, Expired})
   \<and> (\<not> is_connected (status_value s)) = (s \<in> {Default, Connecting, Error})
   \<and> is_connected c = ((c AND 0x30) \<noteq> 0)"
  by (cases s) (simp_all add: is_connected_def)

text \<open>
  C4: for every integer, \<open>is_error\<close> is true if and only if the integer is the
  Error code 0x03; in particular it is true of a legal code only for Error.
\<close>

theorem is_error_iff:
  "is_error c = (c = 0x03) \<and> is_error (status_value s) = (s = Error)"
  by (cases s) (simp_all add: is_error_def)

text \<open>
  C9: Expired is the only legal code on which \<open>is_connected\<close> and \<open>is_expired\<close>
  are both true.
\<close>

theorem connected_and_expired_only_Expired:
  "(is_connected (status_value s) \<and> is_expired (status_value s)) = (s = Expired)"
  by (cases s) (simp_all add: is_connected_def is_expired_def)

text \<open>
  C2, as stated: in no legal code would the two send bits 0x01 and 0x02 both be
  set.  The Error code 0x03 has both of them set.
\<close>

theorem send_bits_Error_counterexample:
  "(status_value Error AND 0x01) \<noteq> 0 \<and> (status_value Error AND 0x02) \<noteq> 0"
  by simp

text \<open>
  C2, amended: in no legal code are the two receive bits 0x10 and 0x20 both set;
  the two send bits 0x01 and 0x02 are both set in the Error code and in no other
  legal code.
\<close>

theorem recent_stale_bits_legal_codes:
  "\<not> ((status_value s AND 0x10) \<noteq> 0 \<and> (status_value s AND 0x20) \<noteq> 0)
   \<and> ((status_value s AND 0x01) \<noteq> 0 \<and> (status_value s AND 0x02) \<noteq> 0) = (s = Error)"
  by (cases s) simp_all

text \<open>
  C10: the three predicates are total functions of an integer and look at
  nothing but the bits they test: two integers that agree on the bits 0x30 get
  the same answer from \<open>is_connected\<close>, two integers that agree on the bit 0x01
  get the same answer from \<open>is_expired\<close>, and \<open>is_error\<close> is false of every integer
  that is not a member's code.
\<close>

theorem predicates_depend_on_tested_bits:
  "(x AND 0x30 = y AND 0x30 \<longrightarrow> is_connected x = is_connected y)
   \<and> (u AND 0x01 = v AND 0x01 \<longrightarrow> is_expired u = is_expired v)
   \<and> (w \<notin> status_value ` set members \<longrightarrow> \<not> is_error w)"
  by (simp add: is_connected_def is_expired_def is_error_def members_def)

theorem predicates_depend_on_tested_bits_witness:
  "(0x13::int) AND 0x30 = 0x11 AND 0x30 \<and> is_connected 0x13 = is_connected 0x11
   \<and> (-1::int) AND 0x01 = 0x21 AND 0x01 \<and> is_expired (-1) = is_expired 0x21
   \<and> (0x33::int) \<notin> status_value ` set members \<and> \<not> is_error 0x33"
  using predicates_depend_on_tested_bits [of "0x13" "0x11" "-1" "0x21" "0x33"]
  by (simp add: members_def)

section \<open>The classifier\<close>

text \<open>
  C6: whenever the recent threshold is below the stale threshold, \<open>classify\<close>
  does not fail, for any instant and any pair of set or unset timestamps: the
  pair of fields it computes has a row in the table, and the status it returns
  is one of the six members, with one of the six legal codes.
\<close>

theorem classify_returns_legal_code:
  "recent_threshold < stale_threshold \<Longrightarrow>
   \<exists>st. classify now sent received recent_threshold stale_threshold = Some st
        \<and> st \<in> set members
        \<and> status_value st \<in> {0x00, 0x01, 0x11, 0x21, 0x22, 0x03}"
proof -
  obtain st where row: "classify now sent received recent_threshold stale_threshold = Some st"
    unfolding classify_def using lookup_total by blast
  have "st \<in> set members"
    by (cases st) (simp_all add: members_def)
  moreover have "status_value st \<in> {0x00, 0x01, 0x11, 0x21, 0x22, 0x03}"
    by (cases st) simp_all
  ultimately show ?thesis using row by blast
qed

theorem classify_returns_legal_code_witness:
  "(5::int) < 30
   \<and> (\<exists>st. classify 20 (Some 6) None (5::int) 30 = Some st
          \<and> st \<in> set members
          \<and> status_value st \<in> {0x00, 0x01, 0x11, 0x21, 0x22, 0x03})
   \<and> classify 20 (Some 6) None (5::int) 30 = Some Error"
proof -
  have lt: "(5::int) < 30" by simp
  have "classify 20 (Some 6) None (5::int) 30 = Some Error"
    by (simp add: classify_def field_of_def lookup_def status_table_def)
  with lt classify_returns_legal_code [OF lt, of 20 "Some 6" None] show ?thesis
    by blast
qed

text \<open>
  C7: at every instant, and whatever the thresholds, \<open>classify\<close> returns Default
  when both timestamps are unset.
\<close>

theorem classify_unset_is_Default:
  "classify now None None recent_threshold stale_threshold = Some Default"
  by (simp add: classify_def field_of_def lookup_def status_table_def)

section \<open>The tracker\<close>

text \<open>
  C8: for instants \<open>a \<le> b\<close> and any tracker, \<open>on_sent a\<close> followed by \<open>on_sent b\<close>,
  \<open>on_sent b\<close> followed by \<open>on_sent a\<close>, and \<open>on_sent b\<close> twice all leave the tracker
  as a single \<open>on_sent b\<close> does, and likewise for \<open>on_received\<close>; a call with an
  instant earlier than the recorded one returns the tracker unchanged.
\<close>

theorem tracker_updates_idempotent:
  "a \<le> b \<Longrightarrow>
     on_sent b (on_sent a t) = on_sent b t
   \<and> on_sent a (on_sent b t) = on_sent b t
   \<and> on_sent b (on_sent b t) = on_sent b t
   \<and> on_received b (on_received a t) = on_received b t
   \<and> on_received a (on_received b t) = on_received b t
   \<and> on_received b (on_received b t) = on_received b t
   \<and> (last_sent t = Some c \<and> a < c \<longrightarrow> on_sent a t = t)
   \<and> (last_received t = Some c \<and> a < c \<longrightarrow> on_received a t = t)"
proof -
  assume le: "a \<le> b"
  have s1: "on_sent b (on_sent a t) = on_sent b t"
    using le by (auto simp add: on_sent_def split: option.splits)
  have s2: "on_sent a (on_sent b t) = on_sent b t"
    using le by (auto simp add: on_sent_def split: option.splits)
  have s3: "on_sent b (on_sent b t) = on_sent b t"
    by (auto simp add: on_sent_def split: option.splits)
  have r1: "on_received b (on_received a t) = on_received b t"
    using le by (auto simp add: on_received_def split: option.splits)
  have r2: "on_received a (on_received b t) = on_received b t"
    using le by (auto simp add: on_received_def split: option.splits)
  have r3: "on_received b (on_received b t) = on_received b t"
    by (auto simp add: on_received_def split: option.splits)
  have n1: "last_sent t = Some c \<and> a < c \<longrightarrow> on_sent a t = t"
    by (simp add: on_sent_def)
  have n2: "last_received t = Some c \<and> a < c \<longrightarrow> on_received a t = t"
    by (simp add: on_received_def)
  from s1 s2 s3 r1 r2 r3 n1 n2 show ?thesis by blast
qed

theorem tracker_updates_idempotent_witness:
  "(3::int) \<le> 7
   \<and> on_sent 7 (on_sent 3 \<lparr>last_sent = Some 5, last_received = Some 5\<rparr>)
       = \<lparr>last_sent = Some (7::int), last_received = Some 5\<rparr>
   \<and> on_sent 3 (on_sent 7 \<lparr>last_sent = Some 5, last_received = Some 5\<rparr>)
       = \<lparr>last_sent = Some (7::int), last_received = Some 5\<rparr>
   \<and> on_received 7 (on_received 7 \<lparr>last_sent = Some 5, last_received = Some 5\<rparr>)
       = \<lparr>last_sent = Some (5::int), last_received = Some 7\<rparr>
   \<and> on_sent 3 \<lparr>last_sent = Some 5, last_received = Some 5\<rparr>
       = \<lparr>last_sent = Some (5::int), last_received = Some 5\<rparr>"
proof -
  have le: "(3::int) \<le> 7" by simp
  have one: "on_sent 7 \<lparr>last_sent = Some 5, last_received = Some 5\<rparr>
               = \<lparr>last_sent = Some (7::int), last_received = Some 5\<rparr>"
    by (simp add: on_sent_def)
  have two: "on_received 7 \<lparr>last_sent = Some 5, last_received = Some 5\<rparr>
               = \<lparr>last_sent = Some (5::int), last_received = Some 7\<rparr>"
    by (simp add: on_received_def)
  from le one two
    tracker_updates_idempotent [OF le, of "\<lparr>last_sent = Some 5, last_received = Some 5\<rparr>" 5]
  show ?thesis by simp
qed

end
